theory Spec2Isabelle
  imports Main
begin

section \<open>The notebooks as programs\<close>

text \<open>
  The repository consists of three Jupyter notebooks: the T5 summarization demo, the
  English embedding demo (BAAI/bge-small-en-v1.5) and the Japanese embedding demo
  (sentence-bert-base-ja-mean-tokens-v2). A notebook is the list of the statements of its
  code cells, in cell order. Every library call the notebooks make has a constructor of
  its own that carries the call's literal arguments; a SQL text is kept as its parts.
\<close>

subsection \<open>SQL statements\<close>

datatype sql_kind = ReplaceView | CreateTable | Select

text \<open>An argument of an option of a USING clause: a quoted literal or a bare number.\<close>

datatype arg = Str string | Num nat

text \<open>
  The relation of an ON clause: a table or view by name, a parenthesised
  \<^verbatim>\<open>select <columns> from <table> [where model_id = '<id>']\<close>, or the placeholder
  \<^verbatim>\<open>(%s)\<close> filled with the \<^verbatim>\<open>show_query()\<close> of a dataframe variable.
\<close>

datatype rel = Tab string | Sub string string "string option" | Frame string

text \<open>An ON clause: the relation, its alias (AS ...), and whether it is a DIMENSION input.\<close>

type_synonym on_clause = "rel \<times> string option \<times> bool"

record table_op =
  op_schema :: string
  op_name :: string
  on_clauses :: "on_clause list"
  using_opts :: "(string \<times> arg list) list"

record sql_stmt =
  kind :: sql_kind
  target :: "string option"
  columns :: "string list"
  from_op :: table_op
  joins :: "string list"
  with_data :: bool

subsection \<open>Python statements\<close>

datatype cmp = Eq | Ne

datatype stmt =
    Comment string
  | CommentedOut stmt
  | Import string
  | Magic string
  | Shell "string list"
  | AssignStr string
  | NewOperatorSetId string
  | SetVersion string nat
  | OnnxLoad string string
  | MakeModel string string nat "string list"
  | MakeDimParamFixed string string nat
  | ForRemoveOutput string string
  | OnnxSave string string
  | FromPretrained string string string bool
  | InferenceSession string string
  | Tokenize string string nat string
  | SessionRun string string "string list"
  | TokenizerDecode string string
  | SavePretrained string string
  | SentenceTransformer string string
  | Encode string string
  | PrintCosSim string string
  | CreateContext string string
  | RemoveContext
  | DbDropTable string
  | SaveByom string string string
  | DataFrame "string option" string
  | Head string nat
  | ExecuteSql sql_stmt
  | Filter string string cmp int
  | FromQuery sql_stmt

text \<open>
  How the constructors read:
  \<^item> \<open>Shell argv\<close>: a \<^verbatim>\<open>!\<close> line, split at blanks;
  \<^item> \<open>Comment c\<close>: a \<^verbatim>\<open>#\<close> line; \<open>CommentedOut s\<close>: a statement behind a \<^verbatim>\<open>#\<close>;
    \<open>Import m\<close>: an import of (a name of) module \<open>m\<close>; \<open>Magic m\<close>: a \<^verbatim>\<open>%\<close> line;
  \<^item> \<open>AssignStr v\<close>: \<^verbatim>\<open>v = '<text>'\<close>;
  \<^item> \<open>NewOperatorSetId v\<close>: \<^verbatim>\<open>v = onnx.OperatorSetIdProto()\<close>;
    \<open>SetVersion v n\<close>: \<^verbatim>\<open>v.version = n\<close>;
  \<^item> \<open>OnnxLoad v p\<close>: \<^verbatim>\<open>v = onnx.load(p)\<close>;
  \<^item> \<open>MakeModel v m n ops\<close>:
    \<^verbatim>\<open>v = onnx.helper.make_model(m.graph, ir_version = n, opset_imports = ops)\<close>;
  \<^item> \<open>MakeDimParamFixed m p n\<close>:
    \<^verbatim>\<open>rt.tools.onnx_model_utils.make_dim_param_fixed(m.graph, p, n)\<close>;
  \<^item> \<open>ForRemoveOutput m nm\<close>: the loop
    \<^verbatim>\<open>for node in m.graph.output: if node.name == nm: m.graph.output.remove(node)\<close>;
  \<^item> \<open>OnnxSave m p\<close>: \<^verbatim>\<open>onnx.save(m, p)\<close>;
  \<^item> \<open>FromPretrained v cls src l\<close>:
    \<^verbatim>\<open>v = transformers.cls.from_pretrained(src[, local_files_only=True, use_fast=True])\<close>,
    \<open>l\<close> telling whether \<^verbatim>\<open>local_files_only=True\<close> is passed;
  \<^item> \<open>InferenceSession v p\<close>: \<^verbatim>\<open>v = rt.InferenceSession(p)\<close>;
  \<^item> \<open>Tokenize v tok n pad\<close>: \<^verbatim>\<open>v = tok(<text>, max_length = n, padding = pad)\<close>;
  \<^item> \<open>SessionRun v sess names\<close>: \<^verbatim>\<open>v = sess.run(None, {name: ..., ...})\<close>;
  \<^item> \<open>TokenizerDecode tok v\<close>: \<^verbatim>\<open>tok.decode(v[0][0][0], skip_special_tokens = True)\<close>;
  \<^item> \<open>SavePretrained tok dir\<close>: \<^verbatim>\<open>tok.save_pretrained(dir, ...)\<close>;
  \<^item> \<open>SentenceTransformer v hub\<close>: \<^verbatim>\<open>v = SentenceTransformer(hub)\<close>;
    \<open>Encode v m\<close>: \<^verbatim>\<open>v = m.encode(<text>, normalize_embeddings=True)\<close>;
  \<^item> \<open>PrintCosSim a b\<close>: \<^verbatim>\<open>print("..." + str(cos_sim(a, b)))\<close>;
  \<^item> \<open>CreateContext host user\<close>:
    \<^verbatim>\<open>tdml.create_context(host = host, username = user, password = ...)\<close>;
    \<open>RemoveContext\<close>: \<^verbatim>\<open>tdml.remove_context()\<close>;
  \<^item> \<open>DbDropTable t\<close>: \<^verbatim>\<open>tdml.db_drop_table(t)\<close>;
    \<open>SaveByom id file t\<close>: \<^verbatim>\<open>tdml.save_byom(id, file, t)\<close>;
  \<^item> \<open>DataFrame v t\<close>: \<^verbatim>\<open>[v =] tdml.DataFrame(t)\<close>, where \<open>t\<close> is a name or
    \<^verbatim>\<open>tdml.in_schema(schema, table)\<close>, written \<^verbatim>\<open>schema.table\<close>, and the result may be cut
    with \<^verbatim>\<open>.head(3)\<close> for display; \<open>Head v n\<close>: \<^verbatim>\<open>v.head(n)\<close>;
  \<^item> \<open>ExecuteSql q\<close>: \<^verbatim>\<open>tdml.execute_sql(q)\<close>;
    \<open>FromQuery q\<close>: \<^verbatim>\<open>tdml.DataFrame.from_query(q)\<close>;
  \<^item> \<open>Filter v d Eq n\<close>: \<^verbatim>\<open>v = d[d.id == n]\<close>; \<open>Filter v d Ne n\<close>: \<^verbatim>\<open>v = d[d.id != n]\<close>.
\<close>

subsection \<open>The summarization notebook\<close>

definition sql_v_emails_tokenized :: sql_stmt where
  "sql_v_emails_tokenized =
    \<lparr> kind = ReplaceView, target = Some ''v_emails_tokenized'',
      columns = [''id'', ''txt'', ''IDS as input_ids'', ''attention_mask'',
        ''cast(50 as BIGINT) max_length_0'', ''cast(10 as BIGINT) min_length_0'',
        ''cast(4 as BIGINT) num_beams_0'', ''cast(1 as BIGINT) num_return_sequences_0'',
        ''cast(1 as FLOAT) repetition_penalty_0'', ''cast(2 as FLOAT) length_penalty_0''],
      from_op = \<lparr> op_schema = ''ivsm'', op_name = ''tokenizer_encode'',
        on_clauses = [(Tab ''emails.emails'', None, False),
          (Sub ''model as tokenizer'' ''summarization_tokenizers'' None, None, True)],
        using_opts = [(''ColumnsToPreserve'', [Str ''id'', Str ''txt'']),
          (''OutputFields'', [Str ''IDS'', Str ''ATTENTION_MASK'']),
          (''MaxLength'', [Num 512]),
          (''PadToMaxLength'', [Str ''True'']),
          (''TokenDataType'', [Str ''INT32'']),
          (''Debug'', [Str ''True''])] \<rparr>,
      joins = [], with_data = False \<rparr>"

definition sql_v_emails_encoded :: sql_stmt where
  "sql_v_emails_encoded =
    \<lparr> kind = ReplaceView, target = Some ''v_emails_encoded'',
      columns = [''*''],
      from_op = \<lparr> op_schema = ''ivsm'', op_name = ''IVSM_score'',
        on_clauses = [(Tab ''v_emails_tokenized'', None, False),
          (Tab ''summarization_models'', None, True)],
        using_opts = [(''ColumnsToPreserve'', [Str ''id'', Str ''txt'']),
          (''ModelType'', [Str ''ONNX'']),
          (''BinaryInputFields'', [Str ''input_ids'', Str ''attention_mask'']),
          (''BinaryOutputFields'', [Str ''sequences'']),
          (''Caching'', [Str ''interquery''])] \<rparr>,
      joins = [], with_data = False \<rparr>"

definition sql_emails_processed :: sql_stmt where
  "sql_emails_processed =
    \<lparr> kind = CreateTable, target = Some ''emails_processed'',
      columns = [''*''],
      from_op = \<lparr> op_schema = ''ivsm'', op_name = ''tokenizer_decode'',
        on_clauses = [(Sub ''id, txt, sequences as vector'' ''v_emails_encoded'' None, None, False),
          (Sub ''model as tokenizer'' ''summarization_tokenizers'' None, None, True)],
        using_opts = [(''ColumnsToPreserve'', [Str ''id'', Str ''txt'']),
          (''TokenDataType'', [Str ''INT32'']),
          (''SkipSpecialTokens'', [Str ''False''])] \<rparr>,
      joins = [], with_data = True \<rparr>"

definition summarization :: "stmt list" where
  "summarization =
   [ Import ''onnxruntime'', Import ''onnx'', Import ''onnxruntime.tools.onnx_model_utils'',
     Import ''transformers'', Import ''warnings'', Import ''teradataml'', Import ''getpass'',

     Comment ''the execution may ends with error about IR version at the tests but this is OK.'',
     Comment ''This error cause by Linux specifics of this particular DemoVM'',
     Shell [''python3'', ''-m'', ''onnxruntime.transformers.convert_generation'',
       ''--total_runs'', ''0'', ''--disable_perf_test'', ''--disable_parity'',
       ''-m'', ''JulesBelveze/t5-small-headline-generator'', ''--model_type'', ''t5'',
       ''--output'', ''t5-small-headline-generator/t5-small-headline-generator.onnx'',
       ''--no_repeat_ngram_size'', ''2'', ''--custom_attention_mask''],

     NewOperatorSetId ''op'',
     SetVersion ''op'' 12,
     OnnxLoad ''model'' ''./t5-small-headline-generator/t5-small-headline-generator.onnx'',
     MakeModel ''model_ir8'' ''model'' 8 [''op''],

     MakeDimParamFixed ''model_ir8'' ''sequence_length'' 512,
     MakeDimParamFixed ''model_ir8'' ''num_return_sequences'' 1,
     MakeDimParamFixed ''model_ir8'' ''max_length'' 100,
     OnnxSave ''model_ir8'' ''./t5-small-headline-generator/t5-small-headline-generator_fixed.onnx'',

     FromPretrained ''tokenizer'' ''T5TokenizerFast'' ''JulesBelveze/t5-small-headline-generator''
       False,
     InferenceSession ''predef_sess''
       ''./t5-small-headline-generator/t5-small-headline-generator_fixed.onnx'',

     Tokenize ''enc'' ''tokenizer'' 512 ''max_length'',
     SessionRun ''encoder_result'' ''predef_sess''
       [''input_ids'', ''attention_mask'', ''max_length'', ''min_length'',
        ''repetition_penalty'', ''num_beams'', ''num_return_sequences'', ''length_penalty''],
     TokenizerDecode ''tokenizer'' ''encoder_result'',

     SavePretrained ''tokenizer'' ''t5-small-headline-generator'',

     CreateContext ''teradata'' ''<YOUR DATABASE USERNAME>'',

     Comment ''UNCOMMENT IF TABLE EXISTS'',
     CommentedOut (DbDropTable ''summarization_models''),
     Comment ''THIS OPERATION MAY TAKE A WHILE'',
     SaveByom ''t5-small-headline-generator''
       ''./t5-small-headline-generator/t5-small-headline-generator_fixed.onnx''
       ''summarization_models'',
     Comment ''UNCOMMENT IF TABLE EXISTS'',
     CommentedOut (DbDropTable ''summarization_tokenizers''),
     SaveByom ''t5-small-headline-generator''
       ''./t5-small-headline-generator/tokenizer.json''
       ''summarization_tokenizers'',

     DataFrame None ''emails.emails'',

     ExecuteSql sql_v_emails_tokenized,

     ExecuteSql sql_v_emails_encoded,

     Comment ''UNCOMMENT IF TABLE EXISTS'',
     CommentedOut (DbDropTable ''emails_processed''),
     ExecuteSql sql_emails_processed,
     Magic ''time'',

     DataFrame None ''emails_processed'',

     RemoveContext ]"

subsection \<open>The English embedding notebook\<close>

definition sql_emails_embeddings_store :: sql_stmt where
  "sql_emails_embeddings_store =
    \<lparr> kind = CreateTable, target = Some ''emails_embeddings_store'',
      columns = [''*''],
      from_op = \<lparr> op_schema = ''mldb'', op_name = ''ONNXEmbeddings'',
        on_clauses = [(Tab ''emails.emails'', Some ''InputTable'', False),
          (Sub ''*'' ''embeddings_models'' (Some ''bge-small-en-v1.5''), Some ''ModelTable'', True),
          (Sub ''model as tokenizer'' ''embeddings_tokenizers'' (Some ''bge-small-en-v1.5''),
             Some ''TokenizerTable'', True)],
        using_opts = [(''Accumulate'', [Str ''id'', Str ''txt'']),
          (''ModelOutputTensor'', [Str ''sentence_embedding'']),
          (''EnableMemoryCheck'', [Str ''false'']),
          (''OutputFormat'', [Str ''FLOAT32(384)''])] \<rparr>,
      joins = [], with_data = True \<rparr>"

definition sql_vector_distance_en :: sql_stmt where
  "sql_vector_distance_en =
    \<lparr> kind = Select, target = None,
      columns = [''dt.target_id'', ''dt.reference_id'', ''e_tgt.txt as target_txt'',
        ''e_ref.txt as reference_txt'', ''(1.0 - dt.distance) as similiarity''],
      from_op = \<lparr> op_schema = '''', op_name = ''TD_VECTORDISTANCE'',
        on_clauses = [(Frame ''tdf_embeddings_store_tgt'', Some ''TargetTable'', False),
          (Frame ''tdf_embeddings_store_ref'', Some ''ReferenceTable'', True)],
        using_opts = [(''TargetIDColumn'', [Str ''id'']),
          (''TargetFeatureColumns'', [Str ''[emb_0:emb_383]'']),
          (''RefIDColumn'', [Str ''id'']),
          (''RefFeatureColumns'', [Str ''[emb_0:emb_383]'']),
          (''DistanceMeasure'', [Str ''cosine'']),
          (''topk'', [Num 3])] \<rparr>,
      joins = [''emails.emails'', ''emails.emails''], with_data = False \<rparr>"

definition embeddings_en :: "stmt list" where
  "embeddings_en =
   [ Shell [''optimum-cli'', ''export'', ''onnx'', ''--opset'', ''16'', ''--trust-remote-code'',
       ''-m'', ''BAAI/bge-small-en-v1.5'', ''bge-small-en-v1.5-onnx''],

     Import ''onnx'', Import ''onnxruntime'', Import ''transformers'',
     Import ''onnxruntime.tools.onnx_model_utils'',
     Import ''sentence_transformers.util.cos_sim'',
     Import ''sentence_transformers.SentenceTransformer'',
     Import ''teradataml'', Import ''getpass'',

     AssignStr ''sentences_1'',
     AssignStr ''sentences_2'',

     Comment ''Calculate ONNX result'',
     FromPretrained ''tokenizer'' ''AutoTokenizer'' ''./bge-small-en-v1.5-onnx'' False,
     InferenceSession ''predef_sess'' ''bge-small-en-v1.5-onnx/model.onnx'',
     Tokenize ''enc1'' ''tokenizer'' 512 ''max_length'',
     SessionRun ''embeddings_1_onnx'' ''predef_sess'' [''input_ids'', ''attention_mask''],
     Tokenize ''enc2'' ''tokenizer'' 512 ''max_length'',
     SessionRun ''embeddings_2_onnx'' ''predef_sess'' [''input_ids'', ''attention_mask''],

     Comment ''Calculate native model result using SentenceTransformer'',
     SentenceTransformer ''model'' ''BAAI/bge-small-en-v1.5'',
     Encode ''embeddings_1_sentence_transformer'' ''model'',
     Encode ''embeddings_2_sentence_transformer'' ''model'',

     Comment ''Compare results'',
     PrintCosSim ''embeddings_1_onnx'' ''embeddings_2_onnx'',
     PrintCosSim ''embeddings_1_sentence_transformer'' ''embeddings_2_sentence_transformer'',

     CreateContext ''teradata'' ''<YOUR USERNAME>'',

     Comment ''UNCOMMENT IF TABLE EXISTS'',
     DbDropTable ''embeddings_models'',
     SaveByom ''bge-small-en-v1.5'' ''bge-small-en-v1.5-onnx/model.onnx'' ''embeddings_models'',
     Comment ''UNCOMMENT IF TABLE EXISTS'',
     DbDropTable ''embeddings_tokenizers'',
     SaveByom ''bge-small-en-v1.5'' ''bge-small-en-v1.5-onnx/tokenizer.json''
       ''embeddings_tokenizers'',

     Comment ''UNCOMMENT IF TABLE EXISTS'',
     CommentedOut (DbDropTable ''emails_embeddings_store''),
     ExecuteSql sql_emails_embeddings_store,

     DataFrame (Some ''tdf_embeddings_store'') ''emails_embeddings_store'',
     Head ''tdf_embeddings_store'' 3,

     Filter ''tdf_embeddings_store_tgt'' ''tdf_embeddings_store'' Eq 3,
     Filter ''tdf_embeddings_store_ref'' ''tdf_embeddings_store'' Ne 3,

     FromQuery sql_vector_distance_en,

     RemoveContext ]"

subsection \<open>The Japanese embedding notebook\<close>

definition sql_v_emails_tokenized_jp :: sql_stmt where
  "sql_v_emails_tokenized_jp =
    \<lparr> kind = ReplaceView, target = Some ''v_emails_tokenized_for_embeddings_jp'',
      columns = [''id'', ''txt'', ''txt_jp'', ''IDS as input_ids'', ''attention_mask''],
      from_op = \<lparr> op_schema = ''ivsm'', op_name = ''tokenizer_encode'',
        on_clauses = [(Sub ''top 100 *'' ''emails.emails_jp'' None, None, False),
          (Sub ''model as tokenizer'' ''embeddings_tokenizers_jp''
             (Some ''sentence-bert-base-ja-mean-tokens-v2''), None, True)],
        using_opts = [(''ColumnsToPreserve'', [Str ''id'', Str ''txt'', Str ''txt_jp'']),
          (''OutputFields'', [Str ''IDS'', Str ''ATTENTION_MASK'']),
          (''MaxLength'', [Num 512]),
          (''PadToMaxLength'', [Str ''True'']),
          (''TokenDataType'', [Str ''INT64''])] \<rparr>,
      joins = [], with_data = False \<rparr>"

definition sql_emails_embeddings_jp :: sql_stmt where
  "sql_emails_embeddings_jp =
    \<lparr> kind = ReplaceView, target = Some ''emails_embeddings_jp'',
      columns = [''*''],
      from_op = \<lparr> op_schema = ''ivsm'', op_name = ''IVSM_score'',
        on_clauses = [(Tab ''v_emails_tokenized_for_embeddings_jp'', None, False),
          (Sub ''*'' ''embeddings_models_jp'' (Some ''sentence-bert-base-ja-mean-tokens-v2''),
             None, True)],
        using_opts = [(''ColumnsToPreserve'', [Str ''id'', Str ''txt'', Str ''txt_jp'']),
          (''ModelType'', [Str ''ONNX'']),
          (''BinaryInputFields'', [Str ''input_ids'', Str ''attention_mask'']),
          (''BinaryOutputFields'', [Str ''sentence_embedding'']),
          (''Caching'', [Str ''inquery''])] \<rparr>,
      joins = [], with_data = False \<rparr>"

definition sql_emails_embeddings_store_jp :: sql_stmt where
  "sql_emails_embeddings_store_jp =
    \<lparr> kind = CreateTable, target = Some ''emails_embeddings_store_jp'',
      columns = [''*''],
      from_op = \<lparr> op_schema = ''ivsm'', op_name = ''vector_to_columns'',
        on_clauses = [(Tab ''emails_embeddings_jp'', None, False)],
        using_opts = [(''ColumnsToPreserve'', [Str ''id'', Str ''txt'', Str ''txt_jp'']),
          (''VectorDataType'', [Str ''FLOAT32'']),
          (''VectorLength'', [Num 768]),
          (''OutputColumnPrefix'', [Str ''emb_'']),
          (''InputColumnName'', [Str ''sentence_embedding''])] \<rparr>,
      joins = [], with_data = True \<rparr>"

definition sql_vector_distance_jp :: sql_stmt where
  "sql_vector_distance_jp =
    \<lparr> kind = Select, target = None,
      columns = [''dt.target_id'', ''dt.reference_id'', ''e_tgt.txt as target_txt'',
        ''e_ref.txt as reference_txt'', ''e_tgt.txt_jp as target_txt_jp'',
        ''e_ref.txt_jp as reference_txt_jp'', ''(1.0 - dt.distance) as similiarity''],
      from_op = \<lparr> op_schema = '''', op_name = ''TD_VECTORDISTANCE'',
        on_clauses = [(Frame ''tdf_embeddings_store_tgt'', Some ''TargetTable'', False),
          (Frame ''tdf_embeddings_store_ref'', Some ''ReferenceTable'', True)],
        using_opts = [(''TargetIDColumn'', [Str ''id'']),
          (''TargetFeatureColumns'', [Str ''[emb_0:emb_767]'']),
          (''RefIDColumn'', [Str ''id'']),
          (''RefFeatureColumns'', [Str ''[emb_0:emb_767]'']),
          (''DistanceMeasure'', [Str ''cosine'']),
          (''topk'', [Num 3])] \<rparr>,
      joins = [''emails.emails_jp'', ''emails.emails_jp''], with_data = False \<rparr>"

definition embeddings_jp :: "stmt list" where
  "embeddings_jp =
   [ Shell [''optimum-cli'', ''export'', ''onnx'', ''--opset'', ''16'', ''--trust-remote-code'',
       ''-m'', ''sonoisa/sentence-bert-base-ja-mean-tokens-v2'',
       ''sentence-bert-base-ja-mean-tokens-v2''],

     Import ''onnx'', Import ''onnxruntime'', Import ''transformers'',
     Import ''onnxruntime.tools.onnx_model_utils'',
     Import ''sentence_transformers.util.cos_sim'',
     Import ''sentence_transformers.SentenceTransformer'',
     Import ''teradataml'',
     NewOperatorSetId ''op'',
     Import ''onnxruntime.quantization'',
     Import ''getpass'',
     SetVersion ''op'' 16,
     OnnxLoad ''model'' ''sentence-bert-base-ja-mean-tokens-v2/model.onnx'',

     MakeModel ''model_ir8'' ''model'' 8 [''op''],
     Comment ''fixing the variable dim sizes in our mode'',
     MakeDimParamFixed ''model_ir8'' ''batch_size'' 1,
     MakeDimParamFixed ''model_ir8'' ''sequence_length'' 512,
     MakeDimParamFixed ''model_ir8'' ''Concatsentence_embedding_dim_1'' 768,
     Comment ''remove useless token_embeddings output from the model'',
     ForRemoveOutput ''model_ir8'' ''token_embeddings'',
     Comment ''saving the model'',
     OnnxSave ''model_ir8'' ''sentence-bert-base-ja-mean-tokens-v2/model_fixed.onnx'',

     AssignStr ''sentences_1'',
     AssignStr ''sentences_2'',

     Comment ''Calculate ONNX result'',
     FromPretrained ''tokenizer'' ''AutoTokenizer'' ''./sentence-bert-base-ja-mean-tokens-v2''
       False,
     InferenceSession ''predef_sess'' ''sentence-bert-base-ja-mean-tokens-v2/model_fixed.onnx'',
     Tokenize ''enc1'' ''tokenizer'' 512 ''max_length'',
     SessionRun ''embeddings_1_onnx'' ''predef_sess'' [''input_ids'', ''attention_mask''],
     Tokenize ''enc2'' ''tokenizer'' 512 ''max_length'',
     SessionRun ''embeddings_2_onnx'' ''predef_sess'' [''input_ids'', ''attention_mask''],

     Comment ''Calculate native model result using SentenceTransformer'',
     SentenceTransformer ''model'' ''sonoisa/sentence-bert-base-ja-mean-tokens-v2'',
     Encode ''embeddings_1_sentence_transformer'' ''model'',
     Encode ''embeddings_2_sentence_transformer'' ''model'',

     Comment ''Compare results'',
     PrintCosSim ''embeddings_1_onnx'' ''embeddings_2_onnx'',
     PrintCosSim ''embeddings_1_sentence_transformer'' ''embeddings_2_sentence_transformer'',

     FromPretrained ''tokenizer'' ''BertTokenizerFast'' ''sentence-bert-base-ja-mean-tokens-v2''
       True,

     SavePretrained ''tokenizer'' ''sentence-bert-base-ja-mean-tokens-v2-tokenizer'',

     CreateContext ''teradata'' ''<YOUR DATABASE USER>'',

     Comment ''UNCOMMENT IF TABLE EXISTS'',
     CommentedOut (DbDropTable ''embeddings_models_jp''),
     SaveByom ''sentence-bert-base-ja-mean-tokens-v2''
       ''sentence-bert-base-ja-mean-tokens-v2/model_fixed.onnx'' ''embeddings_models_jp'',
     Comment ''UNCOMMENT IF TABLE EXISTS'',
     CommentedOut (DbDropTable ''embeddings_tokenizers_jp''),
     SaveByom ''sentence-bert-base-ja-mean-tokens-v2''
       ''sentence-bert-base-ja-mean-tokens-v2-tokenizer/tokenizer.json''
       ''embeddings_tokenizers_jp'',

     DataFrame None ''emails.emails_jp'',

     ExecuteSql sql_v_emails_tokenized_jp,

     DataFrame None ''v_emails_tokenized_for_embeddings_jp'',

     ExecuteSql sql_emails_embeddings_jp,

     Comment ''UNCOMMENT IF TABLE EXISTS'',
     DbDropTable ''emails_embeddings_store_jp'',
     ExecuteSql sql_emails_embeddings_store_jp,

     DataFrame (Some ''tdf_embeddings_store'') ''emails_embeddings_store_jp'',
     Head ''tdf_embeddings_store'' 3,

     Filter ''tdf_embeddings_store_tgt'' ''tdf_embeddings_store'' Eq 3,
     Filter ''tdf_embeddings_store_ref'' ''tdf_embeddings_store'' Ne 3,

     FromQuery sql_vector_distance_jp,

     RemoveContext ]"


subsection \<open>The SQL the notebooks send\<close>

text \<open>
  The SQL texts of a notebook are the arguments of its \<^verbatim>\<open>execute_sql\<close> and
  \<^verbatim>\<open>DataFrame.from_query\<close> calls. A statement that is commented out sends nothing.
\<close>

fun sql_of :: "stmt \<Rightarrow> sql_stmt list" where
  "sql_of (ExecuteSql q) = [q]"
| "sql_of (FromQuery q) = [q]"
| "sql_of _ = []"

definition sql_stmts :: "stmt list \<Rightarrow> sql_stmt list" where
  "sql_stmts nb = concat (map sql_of nb)"

definition vendor_operators :: "string list" where
  "vendor_operators = [''tokenizer_encode'', ''IVSM_score'', ''tokenizer_decode'',
     ''ONNXEmbeddings'', ''vector_to_columns'', ''TD_VECTORDISTANCE'']"

text \<open>
  An option list is string-keyed when every option has a name, no name occurs twice and
  every option has an argument.
\<close>

definition string_keyed :: "(string \<times> arg list) list \<Rightarrow> bool" where
  "string_keyed opts \<longleftrightarrow>
     list_all (\<lambda>(k, as). k \<noteq> [] \<and> as \<noteq> []) opts \<and> distinct (map fst opts)"

definition sql_ok :: "sql_stmt \<Rightarrow> bool" where
  "sql_ok q \<longleftrightarrow>
     kind q \<in> set [CreateTable, ReplaceView, Select] \<and>
     op_name (from_op q) \<in> set vendor_operators \<and>
     string_keyed (using_opts (from_op q))"

section \<open>What the library calls do\<close>

subsection \<open>ONNX models and the patching calls\<close>

text \<open>
  Of an ONNX model the notebooks touch the IR version, the opset imports and, in the
  graph, the shapes of the inputs and the outputs. A dimension is symbolic
  (\<^verbatim>\<open>dim_param\<close>) or a constant (\<^verbatim>\<open>dim_value\<close>).
\<close>

datatype dim = DimParam string | DimValue nat

type_synonym value_info = "string \<times> dim list"

record graph_proto =
  graph_input :: "value_info list"
  graph_output :: "value_info list"

record model_proto =
  ir_version :: nat
  opset_import :: "nat list"
  graph :: graph_proto

text \<open>
  \<^verbatim>\<open>make_dim_param_fixed(graph, param_name, value)\<close> of onnxruntime replaces, in every
  shape of the graph's inputs and outputs, each symbolic dimension named
  \<^verbatim>\<open>param_name\<close> by the constant \<^verbatim>\<open>value\<close>.
\<close>

definition replace_dim :: "string \<Rightarrow> nat \<Rightarrow> dim \<Rightarrow> dim" where
  "replace_dim p n d = (case d of DimParam q \<Rightarrow> if q = p then DimValue n else d | DimValue _ \<Rightarrow> d)"

definition update_dim_values :: "string \<Rightarrow> nat \<Rightarrow> value_info list \<Rightarrow> value_info list" where
  "update_dim_values p n vis = map (\<lambda>(nm, shape). (nm, map (replace_dim p n) shape)) vis"

definition make_dim_param_fixed :: "graph_proto \<Rightarrow> string \<Rightarrow> nat \<Rightarrow> graph_proto" where
  "make_dim_param_fixed g p n =
     \<lparr> graph_input = update_dim_values p n (graph_input g),
       graph_output = update_dim_values p n (graph_output g) \<rparr>"

text \<open>
  The loop of the Japanese notebook,
  \<^verbatim>\<open>for node in model_ir8.graph.output:
      if node.name == "token_embeddings":
          model_ir8.graph.output.remove(node)\<close>
  iterates over the repeated field by position while the body removes from it: after a
  removal the position still advances, and \<^verbatim>\<open>remove\<close> deletes the first element equal
  to the node. \<open>i\<close> is the position of the iterator.
\<close>

function remove_output_loop :: "string \<Rightarrow> nat \<Rightarrow> value_info list \<Rightarrow> value_info list" where
  "remove_output_loop nm i outs =
     (if i < length outs
      then (if fst (outs ! i) = nm
            then remove_output_loop nm (Suc i) (remove1 (outs ! i) outs)
            else remove_output_loop nm (Suc i) outs)
      else outs)"
  by pat_completeness auto
termination
  by (relation "measure (\<lambda>(nm, i, outs). length outs - i)") (auto simp: length_remove1)

text \<open>The number of times the loop body runs.\<close>

function loop_iterations :: "string \<Rightarrow> nat \<Rightarrow> value_info list \<Rightarrow> nat" where
  "loop_iterations nm i outs =
     (if i < length outs
      then (if fst (outs ! i) = nm
            then Suc (loop_iterations nm (Suc i) (remove1 (outs ! i) outs))
            else Suc (loop_iterations nm (Suc i) outs))
      else 0)"
  by pat_completeness auto
termination
  by (relation "measure (\<lambda>(nm, i, outs). length outs - i)") (auto simp: length_remove1)

declare remove_output_loop.simps [simp del] loop_iterations.simps [simp del]



subsection \<open>The world a notebook runs in\<close>

text \<open>
  A notebook acts on the files of the working directory, the variables of the Python
  kernel, the database session and the objects of the database. A file holds an ONNX
  model or a tokenizer definition, or is a directory. A BYOM table holds rows of a model
  id and a blob; of a table or view made by a statement of a notebook the defining
  statement is kept; of any other table (\<open>Stored\<close>) only that it exists.
\<close>

datatype blob = OnnxFile model_proto | TokenizerFile string | Directory

datatype pyval =
    VOpset nat
  | VModel model_proto
  | VTokenizer string
  | VSession model_proto
  | VFrame string "(cmp \<times> int) list"
  | VOther

datatype dbobj = Stored | Byom "(string \<times> blob) list" | Derived sql_stmt

record world =
  files :: "string \<rightharpoonup> blob"
  vars :: "string \<rightharpoonup> pyval"
  session :: bool
  db :: "string \<rightharpoonup> dbobj"

datatype error =
    NameError string
  | TypeError string
  | FileNotFoundError string
  | NoContext
  | ObjectNotFound string
  | ObjectExists string
  | ModelExists string
  | ShellError

text \<open>A leading \<^verbatim>\<open>./\<close> does not change the file a path names.\<close>

fun norm :: "string \<Rightarrow> string" where
  "norm (a # b # p) = (if a = CHR ''.'' \<and> b = CHR ''/'' then p else a # b # p)"
| "norm p = p"

subsection \<open>The export commands\<close>

fun flag_value :: "string \<Rightarrow> string list \<Rightarrow> string option" where
  "flag_value f (a # b # rest) = (if a = f then Some b else flag_value f (b # rest))"
| "flag_value f _ = None"

definition digit_of :: "char \<Rightarrow> nat option" where
  "digit_of c = (if c \<in> set ''0123456789'' then Some (of_char c - 48) else None)"

fun nat_of_dec :: "nat \<Rightarrow> string \<Rightarrow> nat option" where
  "nat_of_dec acc [] = Some acc"
| "nat_of_dec acc (c # cs) =
     (case digit_of c of None \<Rightarrow> None | Some d \<Rightarrow> nat_of_dec (10 * acc + d) cs)"

text \<open>
  What a \<^verbatim>\<open>!\<close> line exports: the hub id of the model, the ONNX file written, the
  directory written to, whether the tool writes the tokenizer files as well, and the
  opset asked for (if any).
  \<^item> \<^verbatim>\<open>optimum-cli export onnx [--opset n] ... -m <id> <dir>\<close> writes
    \<^verbatim>\<open><dir>/model.onnx\<close> and the tokenizer files into \<^verbatim>\<open><dir>\<close>;
  \<^item> \<^verbatim>\<open>python3 -m onnxruntime.transformers.convert_generation ... -m <id> --output <file>\<close>
    writes \<^verbatim>\<open><file>\<close>.
\<close>

record export =
  hub_id :: string
  onnx_path :: string
  out_dir :: string
  tokenizer_too :: bool
  opset_flag :: "string option"

definition dirname :: "string \<Rightarrow> string" where
  "dirname p = rev (drop 1 (dropWhile (\<lambda>c. c \<noteq> CHR ''/'') (rev p)))"

definition export_of :: "string list \<Rightarrow> export option" where
  "export_of argv =
     (if take 3 argv = [''optimum-cli'', ''export'', ''onnx''] \<and> 3 < length argv then
        (case flag_value ''-m'' (drop 3 argv) of
           None \<Rightarrow> None
         | Some m \<Rightarrow> Some \<lparr> hub_id = m, onnx_path = norm (last argv) @ ''/model.onnx'',
             out_dir = norm (last argv), tokenizer_too = True,
             opset_flag = flag_value ''--opset'' (drop 3 argv) \<rparr>)
      else if take 3 argv = [''python3'', ''-m'', ''onnxruntime.transformers.convert_generation''] then
        (case (flag_value ''-m'' (drop 3 argv), flag_value ''--output'' (drop 3 argv)) of
           (Some m, Some out) \<Rightarrow> Some \<lparr> hub_id = m, onnx_path = norm out,
             out_dir = dirname (norm out), tokenizer_too = False,
             opset_flag = flag_value ''--opset'' (drop 3 argv) \<rparr>
         | _ \<Rightarrow> None)
      else None)"

text \<open>
  The model an export writes: the graph the exporter builds for the hub model (a
  parameter, \<open>hub\<close>: the exporters are not part of the repository), with the opset asked
  for on the command line.
\<close>

definition exported_model :: "(string \<Rightarrow> model_proto) \<Rightarrow> export \<Rightarrow> model_proto option" where
  "exported_model hub e =
     (case opset_flag e of
        None \<Rightarrow> Some (hub (hub_id e))
      | Some n \<Rightarrow> (case nat_of_dec 0 n of
          None \<Rightarrow> None
        | Some k \<Rightarrow> Some ((hub (hub_id e)) \<lparr> opset_import := [k] \<rparr>)))"

definition shell :: "(string \<Rightarrow> model_proto) \<Rightarrow> string list \<Rightarrow> world \<Rightarrow> error + world" where
  "shell hub argv w =
     (case export_of argv of
        None \<Rightarrow> Inl ShellError
      | Some e \<Rightarrow>
         (case exported_model hub e of
            None \<Rightarrow> Inl ShellError
          | Some m \<Rightarrow>
              let fs = (files w)(out_dir e \<mapsto> Directory, onnx_path e \<mapsto> OnnxFile m);
                  fs' = (if tokenizer_too e
                         then fs(out_dir e @ ''/tokenizer.json'' \<mapsto> TokenizerFile (hub_id e))
                         else fs)
              in Inr (w \<lparr> files := fs' \<rparr>)))"

subsection \<open>Resources read and written\<close>

text \<open>
  What a statement needs to exist when it runs, and what exists after it: files (by
  normalised path), database objects and Python variables. Dropping a table is not
  reading it.
\<close>

datatype resource = File string | Obj string | Var string

fun rel_reads :: "rel \<Rightarrow> resource list" where
  "rel_reads (Tab t) = [Obj t]"
| "rel_reads (Sub cols t wh) = [Obj t]"
| "rel_reads (Frame v) = [Var v]"

definition sql_reads :: "sql_stmt \<Rightarrow> resource list" where
  "sql_reads q =
     concat (map (\<lambda>(r, al, d). rel_reads r) (on_clauses (from_op q))) @ map Obj (joins q)"

definition sql_writes :: "sql_stmt \<Rightarrow> resource list" where
  "sql_writes q = (case target q of None \<Rightarrow> [] | Some t \<Rightarrow> [Obj t])"

text \<open>
  \<^verbatim>\<open>from_pretrained\<close> reads a local directory when \<^verbatim>\<open>local_files_only=True\<close> is passed or
  the name is a path starting with \<^verbatim>\<open>./\<close>; otherwise the name is a hub id.
\<close>

definition is_local :: "string \<Rightarrow> bool \<Rightarrow> bool" where
  "is_local src l \<longleftrightarrow> l \<or> take 2 src = ''./''"

fun reads :: "stmt \<Rightarrow> resource list" where
  "reads (SetVersion v n) = [Var v]"
| "reads (OnnxLoad v p) = [File (norm p)]"
| "reads (MakeModel v m n ops) = Var m # map Var ops"
| "reads (MakeDimParamFixed m p n) = [Var m]"
| "reads (ForRemoveOutput m nm) = [Var m]"
| "reads (OnnxSave m p) =
     Var m # (if dirname (norm p) = [] then [] else [File (dirname (norm p))])"
| "reads (FromPretrained v cls src l) = (if is_local src l then [File (norm src)] else [])"
| "reads (InferenceSession v p) = [File (norm p)]"
| "reads (Tokenize v tok n pad) = [Var tok]"
| "reads (SessionRun v sess names) = [Var sess]"
| "reads (TokenizerDecode tok v) = [Var tok, Var v]"
| "reads (SavePretrained tok dir) = [Var tok]"
| "reads (Encode v m) = [Var m]"
| "reads (PrintCosSim a b) = [Var a, Var b]"
| "reads (SaveByom mid file t) = [File (norm file)]"
| "reads (DataFrame v t) = [Obj t]"
| "reads (Head v n) = [Var v]"
| "reads (ExecuteSql q) = sql_reads q"
| "reads (Filter v d c n) = [Var d]"
| "reads (FromQuery q) = sql_reads q"
| "reads _ = []"



subsection \<open>The phases of a pipeline\<close>

datatype phase = Export | Patch | Upload | Invoke



fun rank :: "phase \<Rightarrow> nat" where
  "rank Export = 0"
| "rank Patch = 1"
| "rank Upload = 2"
| "rank Invoke = 3"



subsection \<open>Running a statement\<close>

definition available :: "world \<Rightarrow> resource \<Rightarrow> bool" where
  "available w r =
     (case r of File p \<Rightarrow> files w p \<noteq> None | Obj t \<Rightarrow> db w t \<noteq> None | Var v \<Rightarrow> vars w v \<noteq> None)"

definition missing_error :: "resource \<Rightarrow> error" where
  "missing_error r =
     (case r of File p \<Rightarrow> FileNotFoundError p | Obj t \<Rightarrow> ObjectNotFound t | Var v \<Rightarrow> NameError v)"

definition bind_var :: "string \<Rightarrow> pyval \<Rightarrow> world \<Rightarrow> world" where
  "bind_var v x w = w \<lparr> vars := (vars w)(v \<mapsto> x) \<rparr>"

fun opset_versions :: "world \<Rightarrow> string list \<Rightarrow> nat list option" where
  "opset_versions w [] = Some []"
| "opset_versions w (v # vs) =
     (case (vars w v, opset_versions w vs) of
        (Some (VOpset k), Some ks) \<Rightarrow> Some (k # ks)
      | _ \<Rightarrow> None)"

text \<open>
  The dataframes a query is formatted with must stand for relations of the database.
\<close>

fun frame_error :: "world \<Rightarrow> rel list \<Rightarrow> error option" where
  "frame_error w [] = None"
| "frame_error w (Frame v # rs) =
     (case vars w v of
        Some (VFrame t fs) \<Rightarrow> (if db w t = None then Some (ObjectNotFound t) else frame_error w rs)
      | _ \<Rightarrow> Some (TypeError v))"
| "frame_error w (r # rs) = frame_error w rs"

fun is_view :: "dbobj \<Rightarrow> bool" where
  "is_view (Derived q) = (kind q = ReplaceView)"
| "is_view _ = False"

text \<open>
  A SQL statement needs an open session. CREATE TABLE fails when an object of that name
  exists; REPLACE VIEW replaces a view of that name and fails on a table of that name;
  a SELECT changes nothing.
\<close>

definition run_sql :: "sql_stmt \<Rightarrow> world \<Rightarrow> error + world" where
  "run_sql q w =
     (if \<not> session w then Inl NoContext
      else case frame_error w (map fst (on_clauses (from_op q))) of
        Some e \<Rightarrow> Inl e
      | None \<Rightarrow>
         (case (kind q, target q) of
            (Select, _) \<Rightarrow> Inr w
          | (_, None) \<Rightarrow> Inl (TypeError ''sql'')
          | (CreateTable, Some t) \<Rightarrow>
              (case db w t of
                 None \<Rightarrow> Inr (w \<lparr> db := (db w)(t \<mapsto> Derived q) \<rparr>)
               | Some _ \<Rightarrow> Inl (ObjectExists t))
          | (ReplaceView, Some t) \<Rightarrow>
              (case db w t of
                 None \<Rightarrow> Inr (w \<lparr> db := (db w)(t \<mapsto> Derived q) \<rparr>)
               | Some ob \<Rightarrow> (if is_view ob then Inr (w \<lparr> db := (db w)(t \<mapsto> Derived q) \<rparr>)
                             else Inl (ObjectExists t)))))"

text \<open>
  \<^verbatim>\<open>save_byom(model_id, model_file, table_name)\<close> reads the file and inserts one row
  (model id, file contents) into the table, creating the table when it does not exist; it
  fails when the table already has a row with that model id.
  \<^verbatim>\<open>db_drop_table(table_name)\<close> fails when there is no such table.
\<close>

definition save_byom :: "string \<Rightarrow> string \<Rightarrow> string \<Rightarrow> world \<Rightarrow> error + world" where
  "save_byom mid file t w =
     (if \<not> session w then Inl NoContext
      else case files w (norm file) of
        None \<Rightarrow> Inl (FileNotFoundError file)
      | Some Directory \<Rightarrow> Inl (TypeError file)
      | Some b \<Rightarrow>
         (case db w t of
            None \<Rightarrow> Inr (w \<lparr> db := (db w)(t \<mapsto> Byom [(mid, b)]) \<rparr>)
          | Some (Byom rows) \<Rightarrow>
              (if mid \<in> set (map fst rows) then Inl (ModelExists mid)
               else Inr (w \<lparr> db := (db w)(t \<mapsto> Byom (rows @ [(mid, b)])) \<rparr>))
          | Some _ \<Rightarrow> Inl (TypeError t)))"

definition db_drop_table :: "string \<Rightarrow> world \<Rightarrow> error + world" where
  "db_drop_table t w =
     (if \<not> session w then Inl NoContext
      else case db w t of
        None \<Rightarrow> Inl (ObjectNotFound t)
      | Some ob \<Rightarrow> (if is_view ob then Inl (TypeError t) else Inr (w \<lparr> db := (db w)(t := None) \<rparr>)))"

fun effect :: "(string \<Rightarrow> model_proto) \<Rightarrow> stmt \<Rightarrow> world \<Rightarrow> error + world" where
  "effect hub (Shell argv) w = shell hub argv w"
| "effect hub (AssignStr v) w = Inr (bind_var v VOther w)"
| "effect hub (NewOperatorSetId v) w = Inr (bind_var v (VOpset 0) w)"
| "effect hub (SetVersion v n) w =
     (case vars w v of
        Some (VOpset k) \<Rightarrow> Inr (bind_var v (VOpset n) w)
      | _ \<Rightarrow> Inl (TypeError v))"
| "effect hub (OnnxLoad v p) w =
     (case files w (norm p) of
        Some (OnnxFile m) \<Rightarrow> Inr (bind_var v (VModel m) w)
      | _ \<Rightarrow> Inl (TypeError p))"
| "effect hub (MakeModel v m n ops) w =
     (case (vars w m, opset_versions w ops) of
        (Some (VModel mm), Some ks) \<Rightarrow>
          Inr (bind_var v (VModel \<lparr> ir_version = n, opset_import = ks, graph = graph mm \<rparr>) w)
      | _ \<Rightarrow> Inl (TypeError m))"
| "effect hub (MakeDimParamFixed m p n) w =
     (case vars w m of
        Some (VModel mm) \<Rightarrow>
          Inr (bind_var m (VModel (mm \<lparr> graph := make_dim_param_fixed (graph mm) p n \<rparr>)) w)
      | _ \<Rightarrow> Inl (TypeError m))"
| "effect hub (ForRemoveOutput m nm) w =
     (case vars w m of
        Some (VModel mm) \<Rightarrow>
          Inr (bind_var m (VModel (mm \<lparr> graph := (graph mm)
            \<lparr> graph_output := remove_output_loop nm 0 (graph_output (graph mm)) \<rparr> \<rparr>)) w)
      | _ \<Rightarrow> Inl (TypeError m))"
| "effect hub (OnnxSave m p) w =
     (case vars w m of
        Some (VModel mm) \<Rightarrow> Inr (w \<lparr> files := (files w)(norm p \<mapsto> OnnxFile mm) \<rparr>)
      | _ \<Rightarrow> Inl (TypeError m))"
| "effect hub (FromPretrained v cls src l) w = Inr (bind_var v (VTokenizer src) w)"
| "effect hub (InferenceSession v p) w =
     (case files w (norm p) of
        Some (OnnxFile m) \<Rightarrow> Inr (bind_var v (VSession m) w)
      | _ \<Rightarrow> Inl (TypeError p))"
| "effect hub (Tokenize v tok n pad) w =
     (case vars w tok of
        Some (VTokenizer src) \<Rightarrow> Inr (bind_var v VOther w)
      | _ \<Rightarrow> Inl (TypeError tok))"
| "effect hub (SessionRun v sess names) w =
     (case vars w sess of
        Some (VSession m) \<Rightarrow> Inr (bind_var v VOther w)
      | _ \<Rightarrow> Inl (TypeError sess))"
| "effect hub (TokenizerDecode tok v) w =
     (case vars w tok of
        Some (VTokenizer src) \<Rightarrow> Inr w
      | _ \<Rightarrow> Inl (TypeError tok))"
| "effect hub (SavePretrained tok dir) w =
     (case vars w tok of
        Some (VTokenizer src) \<Rightarrow>
          Inr (w \<lparr> files := (files w)(norm dir \<mapsto> Directory,
                 norm dir @ ''/tokenizer.json'' \<mapsto> TokenizerFile src) \<rparr>)
      | _ \<Rightarrow> Inl (TypeError tok))"
| "effect hub (SentenceTransformer v h) w = Inr (bind_var v VOther w)"
| "effect hub (Encode v m) w = Inr (bind_var v VOther w)"
| "effect hub (CreateContext host user) w = Inr (w \<lparr> session := True \<rparr>)"
| "effect hub RemoveContext w = Inr (w \<lparr> session := False \<rparr>)"
| "effect hub (DbDropTable t) w = db_drop_table t w"
| "effect hub (SaveByom mid file t) w = save_byom mid file t w"
| "effect hub (DataFrame v t) w =
     (if \<not> session w then Inl NoContext
      else Inr (case v of None \<Rightarrow> w | Some x \<Rightarrow> bind_var x (VFrame t []) w))"
| "effect hub (Head v n) w =
     (if \<not> session w then Inl NoContext
      else case vars w v of
        Some (VFrame t fs) \<Rightarrow> Inr w
      | _ \<Rightarrow> Inl (TypeError v))"
| "effect hub (Filter v d c n) w =
     (case vars w d of
        Some (VFrame t fs) \<Rightarrow> Inr (bind_var v (VFrame t (fs @ [(c, n)])) w)
      | _ \<Rightarrow> Inl (TypeError d))"
| "effect hub (ExecuteSql q) w = run_sql q w"
| "effect hub (FromQuery q) w = run_sql q w"
| "effect hub (Comment c) w = Inr w"
| "effect hub (CommentedOut s) w = Inr w"
| "effect hub (Import m) w = Inr w"
| "effect hub (Magic m) w = Inr w"
| "effect hub (PrintCosSim a b) w = Inr w"

text \<open>
  A statement raises when something it reads does not exist; otherwise it has its
  effect. Nothing in the notebooks catches an exception.
\<close>

definition exec :: "(string \<Rightarrow> model_proto) \<Rightarrow> stmt \<Rightarrow> world \<Rightarrow> error + world" where
  "exec hub s w =
     (case List.find (\<lambda>r. \<not> available w r) (reads s) of
        Some r \<Rightarrow> Inl (missing_error r)
      | None \<Rightarrow> effect hub s w)"

text \<open>
  A run executes the statements in order and stops at the first exception; the result is
  then the exception and the world it was raised in.
\<close>

fun run :: "(string \<Rightarrow> model_proto) \<Rightarrow> stmt list \<Rightarrow> world \<Rightarrow> (error \<times> world) + world" where
  "run hub [] w = Inr w"
| "run hub (s # ss) w =
     (case exec hub s w of
        Inl e \<Rightarrow> Inl (e, w)
      | Inr w' \<Rightarrow> run hub ss w')"

text \<open>
  A new working directory and kernel, no session, and a database that holds the demo
  tables of the \<^verbatim>\<open>emails\<close> schema only.
\<close>

definition fresh :: world where
  "fresh = \<lparr> files = Map.empty, vars = Map.empty, session = False,
     db = [''emails.emails'' \<mapsto> Stored, ''emails.emails_jp'' \<mapsto> Stored] \<rparr>"

text \<open>The tables a notebook drops when it runs; a commented-out call drops nothing.\<close>

fun dropped :: "stmt \<Rightarrow> string list" where
  "dropped (DbDropTable t) = [t]"
| "dropped _ = []"

definition dropped_tables :: "stmt list \<Rightarrow> string list" where
  "dropped_tables nb = concat (map dropped nb)"

text \<open>
  The new world, with the tables present that the notebook drops: the database a run of
  the notebook as it stands needs.
\<close>

definition prepared :: "stmt list \<Rightarrow> world" where
  "prepared nb = fresh \<lparr> db := fold (\<lambda>t m. m(t \<mapsto> Stored)) (dropped_tables nb) (db fresh) \<rparr>"

text \<open>
  A graph as the exporters could write it, for evaluating runs: two inputs and two
  outputs with symbolic dimensions.
\<close>

definition sample_hub :: "string \<Rightarrow> model_proto" where
  "sample_hub m =
     \<lparr> ir_version = 7, opset_import = [14],
       graph = \<lparr> graph_input =
           [(''input_ids'', [DimParam ''batch_size'', DimParam ''sequence_length'']),
            (''attention_mask'', [DimParam ''batch_size'', DimParam ''sequence_length''])],
         graph_output =
           [(''token_embeddings'', [DimParam ''batch_size'', DimParam ''sequence_length'',
               DimValue 768]),
            (''sentence_embedding'', [DimParam ''batch_size'',
               DimParam ''Concatsentence_embedding_dim_1''])] \<rparr> \<rparr>"

subsection \<open>Reading the notebooks\<close>

fun commented_drop :: "stmt \<Rightarrow> string list" where
  "commented_drop (CommentedOut (DbDropTable t)) = [t]"
| "commented_drop _ = []"

definition commented_drops :: "stmt list \<Rightarrow> string list" where
  "commented_drops nb = concat (map commented_drop nb)"

fun is_loop :: "stmt \<Rightarrow> bool" where
  "is_loop (ForRemoveOutput m nm) = True"
| "is_loop _ = False"






subsection \<open>Column names and dataframe filters\<close>




text \<open>
  A filter \<^verbatim>\<open>d[d.id == n]\<close> or \<^verbatim>\<open>d[d.id != n]\<close> on a teradataml dataframe becomes the SQL
  condition \<^verbatim>\<open>id = n\<close> or \<^verbatim>\<open>id <> n\<close>. A row is a pair of its id, which SQL allows to be
  NULL (\<open>None\<close>), and the rest; a comparison with NULL is not true, so the row is left out.
\<close>

fun sql_cmp :: "cmp \<Rightarrow> int \<Rightarrow> int option \<Rightarrow> bool" where
  "sql_cmp c n None = False"
| "sql_cmp Eq n (Some k) = (k = n)"
| "sql_cmp Ne n (Some k) = (k \<noteq> n)"

definition frame_rows :: "(cmp \<times> int) list \<Rightarrow> (int option \<times> 'a) list \<Rightarrow> (int option \<times> 'a) list" where
  "frame_rows fs rows = filter (\<lambda>r. list_all (\<lambda>(c, n). sql_cmp c n (fst r)) fs) rows"

subsection \<open>What a run uploads\<close>



definition run_var ::
  "(string \<Rightarrow> model_proto) \<Rightarrow> stmt list \<Rightarrow> world \<Rightarrow> string \<Rightarrow> pyval option" where
  "run_var hub nb w v = (case run hub nb w of Inl x \<Rightarrow> None | Inr w' \<Rightarrow> vars w' v)"



text \<open>
  How a run ends: the exception that stopped it, if any, and whether a session is open
  at that point.
\<close>

definition outcome ::
  "(string \<Rightarrow> model_proto) \<Rightarrow> stmt list \<Rightarrow> world \<Rightarrow> error option \<times> bool" where
  "outcome hub nb w =
     (case run hub nb w of Inl (e, w') \<Rightarrow> (Some e, session w') | Inr w' \<Rightarrow> (None, session w'))"


section \<open>Auxiliary facts\<close>

subsection \<open>Symbolic dimensions\<close>








subsection \<open>The loop over the graph outputs\<close>



lemma loop_iterations_le: "loop_iterations nm i outs \<le> length outs - i"
proof (induction nm i outs rule: loop_iterations.induct)
  case (1 nm i outs)
  show ?case
  proof (cases "i < length outs")
    case False
    then show ?thesis by (subst loop_iterations.simps) simp
  next
    case inside: True
    then have mem: "outs ! i \<in> set outs" by simp
    show ?thesis
    proof (cases "fst (outs ! i) = nm")
      case True
      with inside 1(1)
      have "loop_iterations nm (Suc i) (remove1 (outs ! i) outs)
            \<le> length (remove1 (outs ! i) outs) - Suc i"
        by simp
      with mem inside True show ?thesis
        by (subst loop_iterations.simps) (simp add: length_remove1)
    next
      case False
      with inside 1(2) show ?thesis
        by (subst loop_iterations.simps) auto
    qed
  qed
qed

subsection \<open>Runs\<close>



lemmas run_simps = exec_def available_def missing_error_def bind_var_def shell_def export_of_def
  exported_model_def digit_of_def dirname_def is_local_def sql_reads_def sql_writes_def
  run_sql_def save_byom_def db_drop_table_def fresh_def prepared_def dropped_tables_def

lemmas sql_defs = sql_v_emails_tokenized_def sql_v_emails_encoded_def sql_emails_processed_def
  sql_emails_embeddings_store_def sql_vector_distance_en_def
  sql_v_emails_tokenized_jp_def sql_emails_embeddings_jp_def
  sql_emails_embeddings_store_jp_def sql_vector_distance_jp_def


text \<open>
  A run of the English embedding notebook, in a world that has the tables it drops,
  completes; the model it leaves in its table is the exported one.
\<close>

lemma run_embeddings_en:
  "\<exists>w. run hub embeddings_en (prepared embeddings_en) = Inr w \<and> \<not> session w \<and>
     db w ''embeddings_models'' = Some (Byom [(''bge-small-en-v1.5'',
       OnnxFile ((hub ''BAAI/bge-small-en-v1.5'') \<lparr> opset_import := [16] \<rparr>))]) \<and>
     vars w ''tdf_embeddings_store_tgt'' = Some (VFrame ''emails_embeddings_store'' [(Eq, 3)]) \<and>
     vars w ''tdf_embeddings_store_ref'' = Some (VFrame ''emails_embeddings_store'' [(Ne, 3)])"
  by (simp add: embeddings_en_def run_simps sql_defs)

text \<open>The same for the Japanese embedding notebook, which patches the model.\<close>

lemma run_embeddings_jp:
  "\<exists>w. run hub embeddings_jp (prepared embeddings_jp) = Inr w \<and> \<not> session w \<and>
     db w ''embeddings_models_jp'' = Some (Byom [(''sentence-bert-base-ja-mean-tokens-v2'',
       OnnxFile \<lparr> ir_version = 8, opset_import = [16],
         graph = (make_dim_param_fixed (make_dim_param_fixed (make_dim_param_fixed
             (graph (hub ''sonoisa/sentence-bert-base-ja-mean-tokens-v2''))
             ''batch_size'' 1) ''sequence_length'' 512) ''Concatsentence_embedding_dim_1'' 768)
           \<lparr> graph_output := remove_output_loop ''token_embeddings'' 0
               (graph_output (make_dim_param_fixed (make_dim_param_fixed (make_dim_param_fixed
                  (graph (hub ''sonoisa/sentence-bert-base-ja-mean-tokens-v2''))
                  ''batch_size'' 1) ''sequence_length'' 512)
                  ''Concatsentence_embedding_dim_1'' 768)) \<rparr> \<rparr>)]) \<and>
     vars w ''tdf_embeddings_store_tgt'' = Some (VFrame ''emails_embeddings_store_jp'' [(Eq, 3)]) \<and>
     vars w ''tdf_embeddings_store_ref'' = Some (VFrame ''emails_embeddings_store_jp'' [(Ne, 3)])"
  by (simp add: embeddings_jp_def run_simps sql_defs)



section \<open>The claims\<close>

text \<open>
  C4. Every SQL text that a notebook passes to \<^verbatim>\<open>execute_sql\<close> or
  \<^verbatim>\<open>DataFrame.from_query\<close> is a CREATE TABLE, a REPLACE VIEW or a SELECT; the one table
  operator it invokes is one of tokenizer_encode, IVSM_score, tokenizer_decode,
  ONNXEmbeddings, vector_to_columns and TD_VECTORDISTANCE; and the operator is configured
  by the options of its USING clause, a list of named options with arguments.
\<close>

theorem C4_sql_statements:
  "list_all sql_ok (sql_stmts summarization) \<and>
   list_all sql_ok (sql_stmts embeddings_en) \<and>
   list_all sql_ok (sql_stmts embeddings_jp)"
  by (simp add: sql_stmts_def summarization_def embeddings_en_def embeddings_jp_def
      sql_ok_def string_keyed_def vendor_operators_def
      sql_v_emails_tokenized_def sql_v_emails_encoded_def sql_emails_processed_def
      sql_emails_embeddings_store_def sql_vector_distance_en_def
      sql_v_emails_tokenized_jp_def sql_emails_embeddings_jp_def
      sql_emails_embeddings_store_jp_def sql_vector_distance_jp_def)





text \<open>
  C3. The summarization notebook runs no \<^verbatim>\<open>db_drop_table\<close>: its three calls are commented
  out. The English embedding notebook runs two and the Japanese one runs one, each under
  the comment UNCOMMENT IF TABLE EXISTS. In a new database the English notebook
  therefore stops at its first drop, with the session open.
\<close>

theorem C3_drops_that_run:
  "dropped_tables summarization = [] \<and>
   commented_drops summarization =
     [''summarization_models'', ''summarization_tokenizers'', ''emails_processed''] \<and>
   dropped_tables embeddings_en = [''embeddings_models'', ''embeddings_tokenizers''] \<and>
   commented_drops embeddings_en = [''emails_embeddings_store''] \<and>
   dropped_tables embeddings_jp = [''emails_embeddings_store_jp''] \<and>
   commented_drops embeddings_jp = [''embeddings_models_jp'', ''embeddings_tokenizers_jp''] \<and>
   outcome sample_hub embeddings_en fresh = (Some (ObjectNotFound ''embeddings_models''), True)"
proof -
  have "outcome sample_hub embeddings_en fresh = (Some (ObjectNotFound ''embeddings_models''), True)"
    by (simp add: outcome_def embeddings_en_def run_simps sql_defs)
  then show ?thesis
    by (simp add: dropped_tables_def commented_drops_def summarization_def embeddings_en_def
        embeddings_jp_def)
qed



text \<open>
  C9, as amended. The summarization notebook and the English embedding notebook contain
  no loop. The Japanese embedding notebook contains one, the \<^verbatim>\<open>for\<close> loop over the
  graph outputs of the model; its body runs at most once per output, and the loop leaves
  no more outputs than it found. Every run of a list of statements ends, with the final
  world or with the first exception.
\<close>

theorem C9_one_bounded_loop:
  "filter is_loop summarization = [] \<and>
   filter is_loop embeddings_en = [] \<and>
   filter is_loop embeddings_jp = [ForRemoveOutput ''model_ir8'' ''token_embeddings''] \<and>
   loop_iterations nm i outs \<le> length outs - i \<and>
   length (remove_output_loop nm i outs) \<le> length outs \<and>
   ((\<exists>w'. run hub nb w = Inr w') \<or> (\<exists>e w'. run hub nb w = Inl (e, w')))"
proof -
  have a: "filter is_loop summarization = []" "filter is_loop embeddings_en = []"
    "filter is_loop embeddings_jp = [ForRemoveOutput ''model_ir8'' ''token_embeddings'']"
    by (simp_all add: summarization_def embeddings_en_def embeddings_jp_def)
  have b: "length (remove_output_loop nm i outs) \<le> length outs"
  proof (induction nm i outs rule: remove_output_loop.induct)
    case (1 nm i outs)
    show ?case
    proof (cases "i < length outs")
      case False
      then show ?thesis by (subst remove_output_loop.simps) simp
    next
      case inside: True
      show ?thesis
      proof (cases "fst (outs ! i) = nm")
        case True
        with inside 1(1)
        have "length (remove_output_loop nm (Suc i) (remove1 (outs ! i) outs))
              \<le> length (remove1 (outs ! i) outs)"
          by simp
        also have "\<dots> \<le> length outs"
          by (simp add: length_remove1)
        finally show ?thesis using inside True
          by (subst remove_output_loop.simps) simp
      next
        case False
        with inside 1(2) show ?thesis
          by (subst remove_output_loop.simps) simp
      qed
    qed
  qed
  have c: "(\<exists>w'. run hub nb w = Inr w') \<or> (\<exists>e w'. run hub nb w = Inl (e, w'))"
    by (cases "run hub nb w") auto
  from a b c loop_iterations_le [of nm i outs] show ?thesis
    by simp
qed

text \<open>
  C9 as stated fails: the Japanese embedding notebook contains a loop, and on a graph
  with two outputs its body runs twice.
\<close>

theorem C9_japanese_notebook_has_a_loop:
  "ForRemoveOutput ''model_ir8'' ''token_embeddings'' \<in> set embeddings_jp \<and>
   is_loop (ForRemoveOutput ''model_ir8'' ''token_embeddings'') \<and>
   loop_iterations ''token_embeddings'' 0
     [(''sentence_embedding'', [DimValue 1, DimValue 768]), (''pooled'', [DimValue 1])] = 2"
  by (simp add: embeddings_jp_def loop_iterations.simps)




text \<open>
  C10, as amended. After a run of either embedding notebook the target dataframe is the
  embedding store filtered by \<^verbatim>\<open>id == 3\<close> and the reference dataframe is the store
  filtered by \<^verbatim>\<open>id != 3\<close>. For every content of the store the two have no row in common,
  no target row has the id of a reference row, and together they hold the rows of the
  store whose id is not NULL.
\<close>

theorem C10_target_and_reference:
  "run_var hub embeddings_en (prepared embeddings_en) ''tdf_embeddings_store_tgt''
     = Some (VFrame ''emails_embeddings_store'' [(Eq, 3)]) \<and>
   run_var hub embeddings_en (prepared embeddings_en) ''tdf_embeddings_store_ref''
     = Some (VFrame ''emails_embeddings_store'' [(Ne, 3)]) \<and>
   run_var hub embeddings_jp (prepared embeddings_jp) ''tdf_embeddings_store_tgt''
     = Some (VFrame ''emails_embeddings_store_jp'' [(Eq, 3)]) \<and>
   run_var hub embeddings_jp (prepared embeddings_jp) ''tdf_embeddings_store_ref''
     = Some (VFrame ''emails_embeddings_store_jp'' [(Ne, 3)]) \<and>
   map fst (on_clauses (from_op sql_vector_distance_en))
     = [Frame ''tdf_embeddings_store_tgt'', Frame ''tdf_embeddings_store_ref''] \<and>
   map fst (on_clauses (from_op sql_vector_distance_jp))
     = [Frame ''tdf_embeddings_store_tgt'', Frame ''tdf_embeddings_store_ref''] \<and>
   set (frame_rows [(Eq, 3)] store) \<inter> set (frame_rows [(Ne, 3)] store) = {} \<and>
   (\<forall>t \<in> set (frame_rows [(Eq, 3)] store). \<forall>r \<in> set (frame_rows [(Ne, 3)] store).
      fst t \<noteq> fst r) \<and>
   set (frame_rows [(Eq, 3)] store) \<union> set (frame_rows [(Ne, 3)] store)
     = {r \<in> set store. fst r \<noteq> None}"
proof -
  obtain w1 where w1: "run hub embeddings_en (prepared embeddings_en) = Inr w1"
    "vars w1 ''tdf_embeddings_store_tgt'' = Some (VFrame ''emails_embeddings_store'' [(Eq, 3)])"
    "vars w1 ''tdf_embeddings_store_ref'' = Some (VFrame ''emails_embeddings_store'' [(Ne, 3)])"
    using run_embeddings_en [of hub] by blast
  obtain w2 where w2: "run hub embeddings_jp (prepared embeddings_jp) = Inr w2"
    "vars w2 ''tdf_embeddings_store_tgt'' = Some (VFrame ''emails_embeddings_store_jp'' [(Eq, 3)])"
    "vars w2 ''tdf_embeddings_store_ref'' = Some (VFrame ''emails_embeddings_store_jp'' [(Ne, 3)])"
    using run_embeddings_jp [of hub] by blast
  have frames: "map fst (on_clauses (from_op sql_vector_distance_en))
     = [Frame ''tdf_embeddings_store_tgt'', Frame ''tdf_embeddings_store_ref'']"
    "map fst (on_clauses (from_op sql_vector_distance_jp))
     = [Frame ''tdf_embeddings_store_tgt'', Frame ''tdf_embeddings_store_ref'']"
    by (simp_all add: sql_defs)
  have cmp: "sql_cmp Eq 3 x \<longleftrightarrow> x = Some 3" "sql_cmp Ne 3 x \<longleftrightarrow> x \<noteq> None \<and> x \<noteq> Some 3" for x
    by (cases x; simp)+
  have disj: "set (frame_rows [(Eq, 3)] store) \<inter> set (frame_rows [(Ne, 3)] store) = {}"
    by (auto simp: frame_rows_def cmp)
  have ids: "\<forall>t \<in> set (frame_rows [(Eq, 3)] store). \<forall>r \<in> set (frame_rows [(Ne, 3)] store).
      fst t \<noteq> fst r"
    by (auto simp: frame_rows_def cmp)
  have cover: "set (frame_rows [(Eq, 3)] store) \<union> set (frame_rows [(Ne, 3)] store)
     = {r \<in> set store. fst r \<noteq> None}"
    by (auto simp: frame_rows_def cmp)
  have rv: "run_var hub embeddings_en (prepared embeddings_en) ''tdf_embeddings_store_tgt''
       = Some (VFrame ''emails_embeddings_store'' [(Eq, 3)])"
    "run_var hub embeddings_en (prepared embeddings_en) ''tdf_embeddings_store_ref''
       = Some (VFrame ''emails_embeddings_store'' [(Ne, 3)])"
    "run_var hub embeddings_jp (prepared embeddings_jp) ''tdf_embeddings_store_tgt''
       = Some (VFrame ''emails_embeddings_store_jp'' [(Eq, 3)])"
    "run_var hub embeddings_jp (prepared embeddings_jp) ''tdf_embeddings_store_ref''
       = Some (VFrame ''emails_embeddings_store_jp'' [(Ne, 3)])"
    by (simp_all add: run_var_def w1 w2)
  from rv frames disj ids cover show ?thesis
    by (intro conjI)
qed

theorem C10_target_and_reference_witness:
  "frame_rows [(Eq, 3)] [(Some 3, ''a''), (Some 4, ''b''), (None, ''c'')] = [(Some 3, ''a'')] \<and>
   frame_rows [(Ne, 3)] [(Some 3, ''a''), (Some 4, ''b''), (None, ''c'')] = [(Some 4, ''b'')] \<and>
   fst (Some (3::int), ''a'') \<noteq> fst (Some (4::int), ''b'')"
  using C10_target_and_reference [of sample_hub "[(Some 3, ''a''), (Some 4, ''b''), (None, ''c'')]"]
  by (simp add: frame_rows_def)

text \<open>
  C10 as stated fails: a row of the store whose id is NULL is neither a target row nor a
  reference row.
\<close>

theorem C10_null_id_is_in_neither:
  "set (frame_rows [(Eq, 3)] [(None, ''a'')]) \<union> set (frame_rows [(Ne, 3)] [(None, ''a'')])
   \<noteq> set [(None, ''a'')]"
  by (simp add: frame_rows_def)

end
